theory Spec2Isabelle
  imports Main
begin

section \<open>JavaScript values held by cells\<close>

text \<open>
  The checker is the class file with \<^verbatim>\<open>Puzzle\<close>, \<^verbatim>\<open>Cell\<close>, \<^verbatim>\<open>RuleBase\<close> and its sixteen
  subclasses (the latest of the three drafts in the repository: it is the one with the
  constructor assertions and with every rule variant; \<^verbatim>\<open>src/check.js\<close> is an earlier
  draft of the same classes).

  A cell holds \<^verbatim>\<open>undefined\<close> until it is populated, and a number afterwards. The
  numbers are the IEEE doubles with an integer value, written \<open>Num n\<close> for the double
  whose value is \<open>n\<close>, together with the two infinities and \<open>NaN\<close>, which the arithmetic
  of the checks can produce (\<^verbatim>\<open>0 + undefined\<close> is \<open>NaN\<close>). Sums, differences and
  products of such numbers are such numbers again.
\<close>

datatype jsval = Undefined | Num int | PosInf | NegInf | NaN

text \<open>
  The result of an arithmetic operation is the exact result rounded to the nearest
  double, ties to the even significand (53 bits), and to an infinity from \<open>2^1024\<close> on.
  \<open>double_ulp m\<close> is the spacing of the doubles around the magnitude \<open>m\<close>: 1 below
  \<open>2^53\<close>, 2 from there to \<open>2^54\<close>, and so on.
\<close>

function double_ulp :: "int \<Rightarrow> int" where
  "double_ulp m = (if m < 2 ^ 53 then 1 else 2 * double_ulp (m div 2))"
  by pat_completeness auto
termination
  by (relation "measure nat") auto

declare double_ulp.simps [simp del]

definition to_double :: "int \<Rightarrow> jsval" where
  "to_double n =
     (let m = \<bar>n\<bar>;
          ulp = double_ulp m;
          q = m div ulp;
          r = m mod ulp;
          q' = (if 2 * r < ulp \<or> (2 * r = ulp \<and> even q) then q else q + 1);
          m' = q' * ulp
      in if m' \<ge> 2 ^ 1024 then (if n < 0 then NegInf else PosInf) else Num (sgn n * m'))"

text \<open>
  An integer \<open>n\<close> is the value of a double when \<open>to_double n = Num n\<close>: every integer
  below \<open>2^53\<close> in magnitude is, and above that the multiples of the spacing. Cells
  hold such values, and every result of the operations below is one.
\<close>

text \<open>
  \<^verbatim>\<open>a + b\<close>, \<^verbatim>\<open>a - b\<close>, \<^verbatim>\<open>a * b\<close>. An operand that is \<^verbatim>\<open>undefined\<close> or \<open>NaN\<close> gives
  \<open>NaN\<close>, and so do \<open>\<infinity> - \<infinity>\<close> and \<open>\<infinity> * 0\<close>.
\<close>

fun js_add :: "jsval \<Rightarrow> jsval \<Rightarrow> jsval" where
  "js_add (Num a) (Num b) = to_double (a + b)"
| "js_add PosInf NegInf = NaN"
| "js_add NegInf PosInf = NaN"
| "js_add PosInf (Num b) = PosInf"
| "js_add (Num a) PosInf = PosInf"
| "js_add PosInf PosInf = PosInf"
| "js_add NegInf (Num b) = NegInf"
| "js_add (Num a) NegInf = NegInf"
| "js_add NegInf NegInf = NegInf"
| "js_add _ _ = NaN"

fun js_sub :: "jsval \<Rightarrow> jsval \<Rightarrow> jsval" where
  "js_sub (Num a) (Num b) = to_double (a - b)"
| "js_sub PosInf PosInf = NaN"
| "js_sub NegInf NegInf = NaN"
| "js_sub PosInf (Num b) = PosInf"
| "js_sub PosInf NegInf = PosInf"
| "js_sub (Num a) NegInf = PosInf"
| "js_sub NegInf (Num b) = NegInf"
| "js_sub NegInf PosInf = NegInf"
| "js_sub (Num a) PosInf = NegInf"
| "js_sub _ _ = NaN"

fun js_mul :: "jsval \<Rightarrow> jsval \<Rightarrow> jsval" where
  "js_mul (Num a) (Num b) = to_double (a * b)"
| "js_mul PosInf (Num b) = (if b = 0 then NaN else if 0 < b then PosInf else NegInf)"
| "js_mul NegInf (Num b) = (if b = 0 then NaN else if 0 < b then NegInf else PosInf)"
| "js_mul (Num a) PosInf = (if a = 0 then NaN else if 0 < a then PosInf else NegInf)"
| "js_mul (Num a) NegInf = (if a = 0 then NaN else if 0 < a then NegInf else PosInf)"
| "js_mul PosInf PosInf = PosInf"
| "js_mul NegInf NegInf = PosInf"
| "js_mul PosInf NegInf = NegInf"
| "js_mul NegInf PosInf = NegInf"
| "js_mul _ _ = NaN"

text \<open>
  \<^verbatim>\<open>a % b\<close>: the remainder takes the sign of the dividend and is exact; \<^verbatim>\<open>a % 0\<close> and
  \<^verbatim>\<open>Infinity % b\<close> are \<open>NaN\<close>, and \<^verbatim>\<open>a % Infinity\<close> is \<open>a\<close>.
\<close>

fun js_rem :: "jsval \<Rightarrow> jsval \<Rightarrow> jsval" where
  "js_rem (Num a) (Num b) = (if b = 0 then NaN else Num (sgn a * (\<bar>a\<bar> mod \<bar>b\<bar>)))"
| "js_rem (Num a) PosInf = Num a"
| "js_rem (Num a) NegInf = Num a"
| "js_rem _ _ = NaN"

text \<open>\<^verbatim>\<open>a < b\<close>: false as soon as one side is \<^verbatim>\<open>undefined\<close> or \<open>NaN\<close>.\<close>

fun js_lt :: "jsval \<Rightarrow> jsval \<Rightarrow> bool" where
  "js_lt (Num a) (Num b) = (a < b)"
| "js_lt NegInf (Num b) = True"
| "js_lt NegInf PosInf = True"
| "js_lt (Num a) PosInf = True"
| "js_lt _ _ = False"

text \<open>\<^verbatim>\<open>a === b\<close> (strict equality): \<open>NaN\<close> is not equal to itself.\<close>

fun js_seq :: "jsval \<Rightarrow> jsval \<Rightarrow> bool" where
  "js_seq (Num a) (Num b) = (a = b)"
| "js_seq PosInf PosInf = True"
| "js_seq NegInf NegInf = True"
| "js_seq Undefined Undefined = True"
| "js_seq _ _ = False"

text \<open>
  \<^verbatim>\<open>Math.min(a, b)\<close> and \<^verbatim>\<open>Math.max(a, b)\<close> on cell values: \<open>NaN\<close> when an argument is
  \<^verbatim>\<open>undefined\<close> or \<open>NaN\<close>.
\<close>

fun Math_min :: "jsval \<Rightarrow> jsval \<Rightarrow> jsval" where
  "Math_min (Num a) (Num b) = Num (min a b)"
| "Math_min NegInf (Num b) = NegInf"
| "Math_min (Num a) NegInf = NegInf"
| "Math_min NegInf PosInf = NegInf"
| "Math_min PosInf NegInf = NegInf"
| "Math_min NegInf NegInf = NegInf"
| "Math_min PosInf (Num b) = Num b"
| "Math_min (Num a) PosInf = Num a"
| "Math_min PosInf PosInf = PosInf"
| "Math_min _ _ = NaN"

fun Math_max :: "jsval \<Rightarrow> jsval \<Rightarrow> jsval" where
  "Math_max (Num a) (Num b) = Num (max a b)"
| "Math_max PosInf (Num b) = PosInf"
| "Math_max (Num a) PosInf = PosInf"
| "Math_max PosInf NegInf = PosInf"
| "Math_max NegInf PosInf = PosInf"
| "Math_max PosInf PosInf = PosInf"
| "Math_max NegInf (Num b) = Num b"
| "Math_max (Num a) NegInf = Num a"
| "Math_max NegInf NegInf = NegInf"
| "Math_max _ _ = NaN"

section \<open>JavaScript arrays\<close>

text \<open>\<^verbatim>\<open>xs[i]\<close>: \<^verbatim>\<open>undefined\<close> out of range.\<close>

definition js_index :: "jsval list \<Rightarrow> int \<Rightarrow> jsval" where
  "js_index xs i = (if 0 \<le> i \<and> i < int (length xs) then xs ! nat i else Undefined)"

text \<open>
  \<^verbatim>\<open>xs.every((value, i) => f(value, i))\<close>: the callback runs from index 0 and the loop
  stops at the first element it rejects.
\<close>

fun every_from :: "nat \<Rightarrow> ('a \<Rightarrow> nat \<Rightarrow> bool) \<Rightarrow> 'a list \<Rightarrow> bool" where
  "every_from i f [] = True"
| "every_from i f (x # xs) = (if f x i then every_from (Suc i) f xs else False)"

definition every :: "('a \<Rightarrow> nat \<Rightarrow> bool) \<Rightarrow> 'a list \<Rightarrow> bool" where
  "every f xs = every_from 0 f xs"

text \<open>\<^verbatim>\<open>xs.indexOf(v)\<close>: the first index whose element is strictly equal to \<open>v\<close>, or \<open>-1\<close>.\<close>

fun indexOf_from :: "int \<Rightarrow> jsval list \<Rightarrow> jsval \<Rightarrow> int" where
  "indexOf_from i [] v = - 1"
| "indexOf_from i (x # xs) v = (if js_seq x v then i else indexOf_from (i + 1) xs v)"

definition indexOf :: "jsval list \<Rightarrow> jsval \<Rightarrow> int" where
  "indexOf xs v = indexOf_from 0 xs v"

text \<open>
  \<^verbatim>\<open>xs.includes(v)\<close> compares with SameValueZero, under which \<open>NaN\<close> equals itself: on
  \<^typ>\<open>jsval\<close> that is equality.
\<close>

definition js_includes :: "jsval list \<Rightarrow> jsval \<Rightarrow> bool" where
  "js_includes xs v = (v \<in> set xs)"

text \<open>
  \<^verbatim>\<open>xs.slice(start, stop)\<close>: a negative bound counts from the end, and both bounds are
  clamped to the array.
\<close>

definition slice_bound :: "nat \<Rightarrow> int \<Rightarrow> nat" where
  "slice_bound len k = (if k < 0 then nat (max (int len + k) 0) else nat (min k (int len)))"

definition slice :: "'a list \<Rightarrow> int \<Rightarrow> int \<Rightarrow> 'a list" where
  "slice xs start stop =
     (let k = slice_bound (length xs) start; final = slice_bound (length xs) stop
      in take (final - k) (drop k xs))"

text \<open>\<^verbatim>\<open>xs.reduce((acc, cell) => acc + cell, 0)\<close>.\<close>

definition reduce_add :: "jsval list \<Rightarrow> jsval" where
  "reduce_add xs = foldl js_add (Num 0) xs"

section \<open>Cells and the heap\<close>

text \<open>
  A \<^verbatim>\<open>Cell\<close> is an object with one field, \<^verbatim>\<open>value\<close>. The grid and the rules hold
  references to the same objects, so a cell is an address and the heap maps each address
  to the cell's current value; \<open>fresh\<close> is the next address \<^verbatim>\<open>new Cell()\<close> hands out.
\<close>

type_synonym addr = nat

record heap =
  cell_value :: "addr \<Rightarrow> jsval"
  fresh :: addr

definition new_Cell :: "heap \<Rightarrow> addr \<times> heap" where
  "new_Cell h =
     (fresh h, h\<lparr>cell_value := (cell_value h)(fresh h := Undefined), fresh := Suc (fresh h)\<rparr>)"

section \<open>Rules\<close>

datatype error = AssertionError string | TypeError

text \<open>
  One constructor per subclass of \<^verbatim>\<open>RuleBase\<close>, holding the private \<^verbatim>\<open>#cells\<close> and the
  fields the class's constructor stores. A rule's cells are a list of \<^verbatim>\<open>Cell\<close> objects;
  a clone's are a list of groups, each a list of \<^verbatim>\<open>Cell\<close> objects.
\<close>

datatype rule =
    Region "addr list"
  | Odd "addr list"
  | Even "addr list"
  | Thermometer "addr list"
  | Palindrome "addr list"
  | KillerCage "addr list" jsval
  | LittleKiller "addr list" jsval
  | Sandwich "addr list" jsval jsval jsval
  | Difference "addr list" jsval
  | Ratio "addr list" jsval
  | Clone "addr list list"
  | Arrow "addr list"
  | BetweenLine "addr list"
  | Minimum "addr list"
  | Maximum "addr list"
  | XV "addr list" jsval
  | Quadruple "addr list" "jsval list"

text \<open>The value of a flag field: \<^verbatim>\<open>true\<close>, \<^verbatim>\<open>false\<close>, or declared without a value.\<close>

datatype jsflag = JSTrue | JSFalse | JSUndefined

fun name :: "rule \<Rightarrow> string" where
  "name (Region _) = ''region''"
| "name (Odd _) = ''odd''"
| "name (Even _) = ''even''"
| "name (Thermometer _) = ''thermometer''"
| "name (Palindrome _) = ''palindrome''"
| "name (KillerCage _ _) = ''killer-cage''"
| "name (LittleKiller _ _) = ''little-killer''"
| "name (Sandwich _ _ _ _) = ''sandwich''"
| "name (Difference _ _) = ''difference''"
| "name (Ratio _ _) = ''ratio''"
| "name (Clone _) = ''clone''"
| "name (Arrow _) = ''arrow''"
| "name (BetweenLine _) = ''between-line''"
| "name (Minimum _) = ''minimum''"
| "name (Maximum _) = ''maximum''"
| "name (XV _ _) = ''xv''"
| "name (Quadruple _ _) = ''quadruple''"

text \<open>
  The private \<^verbatim>\<open>#cells\<close>: \<open>cells\<close> for a rule over a list of cells, \<open>groups\<close> for a
  clone (which has no flat list); \<open>referenced\<close> is every cell the rule refers to.
\<close>

fun cells :: "rule \<Rightarrow> addr list" where
  "cells (Region cs) = cs"
| "cells (Odd cs) = cs"
| "cells (Even cs) = cs"
| "cells (Thermometer cs) = cs"
| "cells (Palindrome cs) = cs"
| "cells (KillerCage cs _) = cs"
| "cells (LittleKiller cs _) = cs"
| "cells (Sandwich cs _ _ _) = cs"
| "cells (Difference cs _) = cs"
| "cells (Ratio cs _) = cs"
| "cells (Clone gs) = []"
| "cells (Arrow cs) = cs"
| "cells (BetweenLine cs) = cs"
| "cells (Minimum cs) = cs"
| "cells (Maximum cs) = cs"
| "cells (XV cs _) = cs"
| "cells (Quadruple cs _) = cs"

fun groups :: "rule \<Rightarrow> addr list list" where
  "groups (Clone gs) = gs"
| "groups _ = []"

definition referenced :: "rule \<Rightarrow> addr set" where
  "referenced r = set (cells r) \<union> set (concat (groups r))"

text \<open>
  \<^verbatim>\<open>get cellValues()\<close>: the current values, read from the heap on every call, in
  reference order; for a clone, one list per group.
\<close>

definition cellValues :: "addr list \<Rightarrow> heap \<Rightarrow> jsval list" where
  "cellValues cs h = map (cell_value h) cs"

definition cellValues_groups :: "addr list list \<Rightarrow> heap \<Rightarrow> jsval list list" where
  "cellValues_groups gs h = map (\<lambda>g. map (cell_value h) g) gs"


text \<open>\<^verbatim>\<open>get cellCount()\<close>: the length of \<^verbatim>\<open>#cells\<close> (for a clone, the number of groups).\<close>

fun cellCount :: "rule \<Rightarrow> nat" where
  "cellCount (Clone gs) = length gs"
| "cellCount r = length (cells r)"

subsection \<open>The fields of \<^verbatim>\<open>RuleBase\<close> as the subclasses set them\<close>

text \<open>
  \<^verbatim>\<open>RuleBase\<close> initialises the three flags to \<^verbatim>\<open>false\<close>; a subclass's field declaration
  overrides them. \<^verbatim>\<open>RuleThermometer\<close> declares \<^verbatim>\<open>isRelation;\<close> without a value, which
  leaves the field \<^verbatim>\<open>undefined\<close>.
\<close>

fun isUniques :: "rule \<Rightarrow> bool" where
  "isUniques (Region _) = True"
| "isUniques (KillerCage _ _) = True"
| "isUniques _ = False"

fun isSum :: "rule \<Rightarrow> jsflag" where
  "isSum (Odd _) = JSTrue"
| "isSum (Even _) = JSTrue"
| "isSum (KillerCage _ _) = JSTrue"
| "isSum (LittleKiller _ _) = JSTrue"
| "isSum (Arrow _) = JSTrue"
| "isSum (XV _ _) = JSTrue"
| "isSum _ = JSFalse"

fun isRelation :: "rule \<Rightarrow> jsflag" where
  "isRelation (Thermometer _) = JSUndefined"
| "isRelation (Difference _ _) = JSTrue"
| "isRelation (Ratio _ _) = JSTrue"
| "isRelation _ = JSFalse"

text \<open>
  The \<^verbatim>\<open>sum\<close> field is a target value or a predicate on the total. The arrow's predicate
  reads \<^verbatim>\<open>this.cellValues[0]\<close> when it is called, so a predicate takes the heap. A class
  that never assigns the field has \<^verbatim>\<open>undefined\<close> there.
\<close>

datatype sum_kind = SumFunction "heap \<Rightarrow> jsval \<Rightarrow> bool" | SumValue jsval

fun sum_field :: "rule \<Rightarrow> sum_kind" where
  "sum_field (Odd _) = SumFunction (\<lambda>h n. js_seq (js_rem n (Num 2)) (Num 1))"
| "sum_field (Even _) = SumFunction (\<lambda>h n. js_seq (js_rem n (Num 2)) (Num 0))"
| "sum_field (KillerCage _ s) = SumValue s"
| "sum_field (LittleKiller _ s) = SumValue s"
| "sum_field (Sandwich _ _ _ s) = SumValue s"
| "sum_field (Arrow cs) =
     SumFunction (\<lambda>h n. js_seq n (js_mul (Num 2) (js_index (cellValues cs h) 0)))"
| "sum_field (XV _ s) = SumValue s"
| "sum_field _ = SumValue Undefined"

text \<open>
  The \<^verbatim>\<open>relation\<close> field. Only these three classes have one, and they are the only ones
  whose \<^verbatim>\<open>isRelation\<close> is not \<^verbatim>\<open>false\<close>, so \<^verbatim>\<open>checkRelation\<close> calls no other.
\<close>

fun relation :: "rule \<Rightarrow> jsval \<Rightarrow> jsval \<Rightarrow> bool" where
  "relation (Thermometer _) a b = js_lt a b"
| "relation (Difference _ d) a b = (js_seq (js_sub a b) d \<or> js_seq (js_sub b a) d)"
| "relation (Ratio _ r) a b = (js_seq (js_mul a r) b \<or> js_seq (js_mul b r) a)"

subsection \<open>\<^verbatim>\<open>RuleBase\<close>: the three property checks\<close>

text \<open>\<^verbatim>\<open>new Set(this.cellValues).size === this.cellCount\<close>.\<close>

definition checkUniques :: "rule \<Rightarrow> heap \<Rightarrow> bool" where
  "checkUniques r h = (card (set (cellValues (cells r) h)) = cellCount r)"

definition checkSum :: "rule \<Rightarrow> heap \<Rightarrow> bool" where
  "checkSum r h =
     (let total = reduce_add (cellValues (cells r) h)
      in case sum_field r of SumFunction f \<Rightarrow> f h total | SumValue v \<Rightarrow> js_seq total v)"

definition checkRelation :: "rule \<Rightarrow> heap \<Rightarrow> bool" where
  "checkRelation r h =
     (let vs = cellValues (cells r) h
      in every (\<lambda>v i. i = 0 \<or> relation r (js_index vs (int i - 1)) v) vs)"

definition RuleBase_check :: "rule \<Rightarrow> heap \<Rightarrow> bool" where
  "RuleBase_check r h =
     (if isUniques r \<and> \<not> checkUniques r h then False
      else if isSum r \<noteq> JSFalse \<and> \<not> checkSum r h then False
      else if isRelation r \<noteq> JSFalse \<and> \<not> checkRelation r h then False
      else True)"

subsection \<open>\<^verbatim>\<open>check()\<close>, with the subclasses' overrides\<close>

text \<open>\<^verbatim>\<open>xs.slice(start)\<close>: to the end of the array.\<close>

definition slice_from :: "'a list \<Rightarrow> int \<Rightarrow> 'a list" where
  "slice_from xs start = drop (slice_bound (length xs) start) xs"

definition Palindrome_check :: "addr list \<Rightarrow> heap \<Rightarrow> bool" where
  "Palindrome_check cs h =
     (let vs = cellValues cs h
      in every (\<lambda>v i. js_seq v (js_index vs (int (length vs) - 1 - int i))) vs)"

definition Sandwich_check :: "addr list \<Rightarrow> jsval \<Rightarrow> jsval \<Rightarrow> jsval \<Rightarrow> heap \<Rightarrow> bool" where
  "Sandwich_check cs minSymbol maxSymbol s h =
     (let vs = cellValues cs h;
          mn = indexOf vs minSymbol;
          mx = indexOf vs maxSymbol;
          total = reduce_add (slice vs (min mn mx + 1) (max mn mx))
      in js_seq total s)"

text \<open>
  The inner callback reads \<^verbatim>\<open>this.cellValues[0][i]\<close>; it only runs when there is a first
  group.
\<close>

definition Clone_check :: "addr list list \<Rightarrow> heap \<Rightarrow> bool" where
  "Clone_check gs h =
     (case cellValues_groups gs h of
        [] \<Rightarrow> True
      | g0 # rest \<Rightarrow>
          every (\<lambda>clone j. every (\<lambda>cell i. js_seq cell (js_index g0 (int i))) clone)
            (g0 # rest))"

definition BetweenLine_check :: "addr list \<Rightarrow> heap \<Rightarrow> bool" where
  "BetweenLine_check cs h =
     (let vs = cellValues cs h;
          left = js_index vs 0;
          right = js_index vs (int (length vs) - 1)
      in every (\<lambda>cell i. js_lt (Math_min left right) cell \<and> js_lt cell (Math_max left right))
           (slice vs 1 (- 1)))"

definition Minimum_check :: "addr list \<Rightarrow> heap \<Rightarrow> bool" where
  "Minimum_check cs h =
     (let vs = cellValues cs h in every (\<lambda>cell i. js_lt (js_index vs 0) cell) (slice_from vs 1))"

definition Maximum_check :: "addr list \<Rightarrow> heap \<Rightarrow> bool" where
  "Maximum_check cs h =
     (let vs = cellValues cs h in every (\<lambda>cell i. js_lt cell (js_index vs 0)) (slice_from vs 1))"

definition Quadruple_check :: "addr list \<Rightarrow> jsval list \<Rightarrow> heap \<Rightarrow> bool" where
  "Quadruple_check cs quadruple h =
     every (\<lambda>quad i. js_includes (cellValues cs h) quad) quadruple"

fun check :: "rule \<Rightarrow> heap \<Rightarrow> bool" where
  "check (Palindrome cs) h = Palindrome_check cs h"
| "check (Sandwich cs minSymbol maxSymbol s) h = Sandwich_check cs minSymbol maxSymbol s h"
| "check (Clone gs) h = Clone_check gs h"
| "check (BetweenLine cs) h = BetweenLine_check cs h"
| "check (Minimum cs) h = Minimum_check cs h"
| "check (Maximum cs) h = Maximum_check cs h"
| "check (Quadruple cs quadruple) h = Quadruple_check cs quadruple h"
| "check r h = RuleBase_check r h"

subsection \<open>Constructors, with their assertions\<close>

definition RuleRegion :: "addr list \<Rightarrow> nat \<Rightarrow> error + rule" where
  "RuleRegion cs n =
     (if length cs = n then Inr (Region cs)
      else Inl (AssertionError ''A Region must contain all used symbols once each; to use an Incomplete Region, use a Killer Cage instead''))"

definition RuleOdd :: "addr list \<Rightarrow> error + rule" where
  "RuleOdd cs = Inr (Odd cs)"

definition RuleEven :: "addr list \<Rightarrow> error + rule" where
  "RuleEven cs = Inr (Even cs)"

definition RuleThermometer :: "addr list \<Rightarrow> error + rule" where
  "RuleThermometer cs = Inr (Thermometer cs)"

definition RulePalindrome :: "addr list \<Rightarrow> error + rule" where
  "RulePalindrome cs = Inr (Palindrome cs)"

definition RuleKillerCage :: "addr list \<Rightarrow> jsval \<Rightarrow> error + rule" where
  "RuleKillerCage cs s = Inr (KillerCage cs s)"

definition RuleLittleKiller :: "addr list \<Rightarrow> jsval \<Rightarrow> error + rule" where
  "RuleLittleKiller cs s = Inr (LittleKiller cs s)"

definition RuleSandwich :: "addr list \<Rightarrow> jsval \<Rightarrow> jsval \<Rightarrow> jsval \<Rightarrow> error + rule" where
  "RuleSandwich cs minSymbol maxSymbol s =
     (if length cs \<ge> 2 then Inr (Sandwich cs minSymbol maxSymbol s)
      else Inl (AssertionError ''A sandwich requires at least two cells for the crust, even if the contents are empty''))"

definition RuleDifference :: "addr list \<Rightarrow> jsval \<Rightarrow> error + rule" where
  "RuleDifference cs d = Inr (Difference cs d)"

definition RuleRatio :: "addr list \<Rightarrow> jsval \<Rightarrow> error + rule" where
  "RuleRatio cs d = Inr (Ratio cs d)"

definition RuleClone :: "addr list list \<Rightarrow> error + rule" where
  "RuleClone gs =
     (if length gs > 1 \<and> list_all (\<lambda>clone. length clone = length (gs ! 0)) gs then Inr (Clone gs)
      else Inl (AssertionError ''A clone is defined as multiple separate groups of cells, all of the same size''))"

definition RuleArrow :: "addr list \<Rightarrow> error + rule" where
  "RuleArrow cs = Inr (Arrow cs)"

definition RuleBetweenLine :: "addr list \<Rightarrow> error + rule" where
  "RuleBetweenLine cs =
     (if length cs \<ge> 2 then Inr (BetweenLine cs)
      else Inl (AssertionError ''A between line requires at least two cells for the delimiter circles, line itself is empty''))"

definition RuleMinimum :: "addr list \<Rightarrow> error + rule" where
  "RuleMinimum cs = Inr (Minimum cs)"

definition RuleMaximum :: "addr list \<Rightarrow> error + rule" where
  "RuleMaximum cs = Inr (Maximum cs)"

definition RuleXV :: "addr list \<Rightarrow> jsval \<Rightarrow> error + rule" where
  "RuleXV cs s = Inr (XV cs s)"

definition RuleQuadruple :: "addr list \<Rightarrow> jsval list \<Rightarrow> error + rule" where
  "RuleQuadruple cs quadruple =
     (if length cs \<le> 4 \<and> length quadruple \<le> length cs then Inr (Quadruple cs quadruple)
      else Inl (AssertionError ''By design, a quadruple can only span up to four cells and cannot contain more digits than it spans cells''))"

section \<open>The puzzle\<close>

record puzzle =
  psize :: nat
  grid :: "addr list list"
  rules :: "rule list"

text \<open>
  The constructor:
  \<^verbatim>\<open>Array.from(Array(size)).map(() => Array.from(Array(size)).map(() => new Cell()))\<close>.
  Each row allocates its cells in order, and the rows are built in order.
\<close>

fun new_cells :: "nat \<Rightarrow> heap \<Rightarrow> addr list \<times> heap" where
  "new_cells 0 h = ([], h)"
| "new_cells (Suc n) h =
     (let (c, h1) = new_Cell h; (cs, h2) = new_cells n h1 in (c # cs, h2))"

fun new_rows :: "nat \<Rightarrow> nat \<Rightarrow> heap \<Rightarrow> addr list list \<times> heap" where
  "new_rows 0 n h = ([], h)"
| "new_rows (Suc m) n h =
     (let (row, h1) = new_cells n h; (rows, h2) = new_rows m n h1 in (row # rows, h2))"

definition new_Puzzle :: "nat \<Rightarrow> heap \<Rightarrow> puzzle \<times> heap" where
  "new_Puzzle n h = (let (g, h1) = new_rows n n h in (\<lparr>psize = n, grid = g, rules = []\<rparr>, h1))"

definition addRules :: "puzzle \<Rightarrow> rule list \<Rightarrow> puzzle" where
  "addRules p rs = p\<lparr>rules := rules p @ rs\<rparr>"

text \<open>
  \<^verbatim>\<open>this.grid[y][x]\<close>: an index outside an array reads \<^verbatim>\<open>undefined\<close>, and reading a
  property of \<^verbatim>\<open>undefined\<close>, or assigning one, throws a \<^verbatim>\<open>TypeError\<close>.
\<close>

definition at :: "'a list \<Rightarrow> int \<Rightarrow> 'a option" where
  "at xs i = (if 0 \<le> i \<and> i < int (length xs) then Some (xs ! nat i) else None)"

definition cell_ref :: "puzzle \<Rightarrow> int \<Rightarrow> int \<Rightarrow> addr option" where
  "cell_ref p x y = (case at (grid p) y of None \<Rightarrow> None | Some row \<Rightarrow> at row x)"

text \<open>\<^verbatim>\<open>setValue(x, y, value) { this.grid[y][x].value = value; }\<close>\<close>

definition setValue :: "puzzle \<Rightarrow> int \<Rightarrow> int \<Rightarrow> jsval \<Rightarrow> heap \<Rightarrow> error + puzzle \<times> heap" where
  "setValue p x y v h =
     (case at (grid p) y of
        None \<Rightarrow> Inl TypeError
      | Some row \<Rightarrow>
          (case at row x of
             None \<Rightarrow> Inl TypeError
           | Some c \<Rightarrow> Inr (p, h\<lparr>cell_value := (cell_value h)(c := v)\<rparr>)))"

text \<open>
  \<^verbatim>\<open>check()\<close> runs \<^verbatim>\<open>this.rules.every(...)\<close>. The callback prints the rule's name and
  result on the console, then returns the rule's result. The argument it passes to
  \<^verbatim>\<open>rule.check\<close>, the grid of the module's own \<^verbatim>\<open>puzzle\<close> object, is ignored there, as
  no \<^verbatim>\<open>check\<close> takes a parameter. The model returns the console lines with the result.
\<close>

type_synonym console = "(string \<times> bool) list"

fun Puzzle_check_every :: "rule list \<Rightarrow> heap \<Rightarrow> console \<Rightarrow> console \<times> bool" where
  "Puzzle_check_every [] h out = (out, True)"
| "Puzzle_check_every (r # rs) h out =
     (let out' = out @ [(name r, check r h)]
      in if check r h then Puzzle_check_every rs h out' else (out', False))"

definition Puzzle_check :: "puzzle \<Rightarrow> heap \<Rightarrow> console \<times> bool" where
  "Puzzle_check p h = Puzzle_check_every (rules p) h []"

text \<open>
  The puzzles a program obtains through the class's interface: a puzzle is constructed
  (on any heap), rules are added, values are set (on whatever the heap has become).
\<close>

inductive reachable :: "puzzle \<Rightarrow> bool" where
  constructed: "new_Puzzle n h0 = (p, h) \<Longrightarrow> reachable p"
| rules_added: "reachable p \<Longrightarrow> reachable (addRules p rs)"
| value_set: "reachable p \<Longrightarrow> setValue p x y v h = Inr (p', h') \<Longrightarrow> reachable p'"

section \<open>The rules as the specification words them\<close>

text \<open>
  The arrow, read element by element: the values on the arrow's path sum to the value in
  its circle, the first cell. This follows the specification's wording, not the code,
  and is compared with \<^const>\<open>check\<close> below.
\<close>

definition arrow_path_sum_equals_circle :: "addr list \<Rightarrow> heap \<Rightarrow> bool" where
  "arrow_path_sum_equals_circle cs h =
     (case cellValues cs h of
        [] \<Rightarrow> False
      | circle # path \<Rightarrow> js_seq (reduce_add path) circle)"

section \<open>Facts about the array operations\<close>

lemma every_from_iff: "every_from k f xs = (\<forall>i<length xs. f (xs ! i) (k + i))"
proof (induction xs arbitrary: k)
  case Nil
  show ?case by simp
next
  case (Cons x xs)
  have "(\<forall>i<Suc (length xs). f ((x # xs) ! i) (k + i)) =
        (f x k \<and> (\<forall>i<length xs. f (xs ! i) (Suc k + i)))"
    by (auto simp: less_Suc_eq_0_disj)
  with Cons.IH [of "Suc k"] show ?case by simp
qed

lemma every_iff: "every f xs = (\<forall>i<length xs. f (xs ! i) i)"
  by (simp add: every_def every_from_iff)

lemma every_value_iff: "every (\<lambda>x i. P x) xs = (\<forall>x\<in>set xs. P x)"
  by (simp add: every_iff all_set_conv_all_nth)

section \<open>Facts about the arithmetic\<close>

lemma double_ulp_small: "m < 2 ^ 53 \<Longrightarrow> double_ulp m = 1"
  by (simp add: double_ulp.simps)

lemma double_ulp_next: "2 ^ 53 \<le> m \<Longrightarrow> m < 2 ^ 54 \<Longrightarrow> double_ulp m = 2"
proof -
  assume a: "2 ^ 53 \<le> m" "m < 2 ^ 54"
  then have "m div 2 < 2 ^ 53" by simp
  then have "double_ulp (m div 2) = 1" by (rule double_ulp_small)
  with a show ?thesis by (subst double_ulp.simps) simp
qed

text \<open>A finite integer that is a multiple of the spacing at its magnitude is a double.\<close>

lemma to_double_multiple:
  assumes u: "double_ulp \<bar>n\<bar> = u" and dvd: "u dvd \<bar>n\<bar>" and pos: "0 < u"
    and fin: "\<bar>n\<bar> < 2 ^ 1024"
  shows "to_double n = Num n"
proof -
  define m where "m = \<bar>n\<bar>"
  have um: "double_ulp m = u" and mod0: "m mod u = 0" and dm: "m div u * u = m"
    and small: "\<not> 2 ^ 1024 \<le> m"
    using u dvd fin by (simp_all add: m_def)
  have "to_double n = Num (sgn n * m)"
    unfolding to_double_def m_def [symmetric] Let_def um
    using mod0 dm small pos by simp
  then show ?thesis by (simp add: m_def mult_sgn_abs)
qed

text \<open>Below \<open>2^53\<close> every integer is a double, and so is its double.\<close>

lemma to_double_exact: "\<bar>n\<bar> < 2 ^ 53 \<Longrightarrow> to_double n = Num n"
proof -
  assume a: "\<bar>n\<bar> < 2 ^ 53"
  then have "double_ulp \<bar>n\<bar> = 1" by (rule double_ulp_small)
  then show ?thesis by (rule to_double_multiple) (insert a, simp_all)
qed

lemma to_double_twice: "\<bar>n\<bar> < 2 ^ 53 \<Longrightarrow> to_double (2 * n) = Num (2 * n)"
proof (cases "\<bar>2 * n\<bar> < 2 ^ 53")
  case True
  then show ?thesis by (rule to_double_exact)
next
  case False
  assume a: "\<bar>n\<bar> < 2 ^ 53"
  from False a have "2 ^ 53 \<le> \<bar>2 * n\<bar>" "\<bar>2 * n\<bar> < 2 ^ 54" by (simp_all add: abs_mult)
  then have "double_ulp \<bar>2 * n\<bar> = 2" by (rule double_ulp_next)
  then show ?thesis by (rule to_double_multiple) (insert a, simp_all add: abs_mult)
qed

lemma sum_list_abs_nonneg: "0 \<le> sum_list (map abs (ns :: int list))"
  by (induction ns) simp_all

text \<open>A total whose partial sums all stay below \<open>2^53\<close> is the exact sum.\<close>

lemma foldl_js_add_exact:
  "\<bar>a\<bar> + sum_list (map abs ns) < 2 ^ 53 \<Longrightarrow>
     foldl js_add (Num a) (map Num ns) = Num (a + sum_list ns)"
proof (induction ns arbitrary: a)
  case Nil
  show ?case by simp
next
  case (Cons n ns)
  have nonneg: "0 \<le> sum_list (map abs ns)" by (rule sum_list_abs_nonneg)
  from Cons.prems nonneg have "\<bar>a + n\<bar> < 2 ^ 53" by simp
  then have step: "js_add (Num a) (Num n) = Num (a + n)" by (simp add: to_double_exact)
  from Cons.prems have "\<bar>a + n\<bar> + sum_list (map abs ns) < 2 ^ 53" by simp
  then have "foldl js_add (Num (a + n)) (map Num ns) = Num (a + n + sum_list ns)"
    by (rule Cons.IH)
  with step show ?case by (simp add: add.assoc)
qed

lemma reduce_add_exact:
  "sum_list (map abs ns) < 2 ^ 53 \<Longrightarrow> reduce_add (map Num ns) = Num (sum_list ns)"
  using foldl_js_add_exact [of 0 ns] by (simp add: reduce_add_def)

section \<open>\<^verbatim>\<open>Puzzle.check()\<close>\<close>

lemma Puzzle_check_every_result:
  "snd (Puzzle_check_every rs h out) = (\<forall>r\<in>set rs. check r h)"
  by (induction rs arbitrary: out) (simp_all add: Let_def)

lemma Puzzle_check_every_console:
  "fst (Puzzle_check_every rs h out) =
     out @ map (\<lambda>r. (name r, check r h))
             (takeWhile (\<lambda>r. check r h) rs @ take 1 (dropWhile (\<lambda>r. check r h) rs))"
  by (induction rs arbitrary: out) (simp_all add: Let_def)

lemma prefix_to_first_failure_length:
  "(length (takeWhile P xs @ take 1 (dropWhile P xs)) = length xs) = (\<forall>x\<in>set (butlast xs). P x)"
  by (induction xs) auto

text \<open>
  C1. For every puzzle, whatever rules are registered and whatever values the cells hold,
  \<^verbatim>\<open>Puzzle.check()\<close> returns true if and only if the \<^verbatim>\<open>check()\<close> of every registered
  rule returns true.
\<close>

theorem Puzzle_check_is_conjunction:
  "snd (Puzzle_check p h) = (\<forall>r\<in>set (rules p). check r h)"
  by (simp add: Puzzle_check_def Puzzle_check_every_result)

text \<open>On a cell holding 2, the even rule passes, the odd rule fails, and so does the puzzle.\<close>

theorem Puzzle_check_is_conjunction_witness:
  "snd (Puzzle_check \<lparr>psize = 1, grid = [[0]], rules = [Even [0], Odd [0]]\<rparr> \<lparr>cell_value = (\<lambda>a. Undefined)(0 := Num 2), fresh = 1\<rparr>) = False
   \<and> check (Even [0]) \<lparr>cell_value = (\<lambda>a. Undefined)(0 := Num 2), fresh = 1\<rparr>
   \<and> \<not> check (Odd [0]) \<lparr>cell_value = (\<lambda>a. Undefined)(0 := Num 2), fresh = 1\<rparr>"
  using Puzzle_check_is_conjunction
    [of "\<lparr>psize = 1, grid = [[0]], rules = [Even [0], Odd [0]]\<rparr>" "\<lparr>cell_value = (\<lambda>a. Undefined)(0 := Num 2), fresh = 1\<rparr>"]
  by (simp add: RuleBase_check_def checkSum_def reduce_add_def cellValues_def to_double_exact)

text \<open>
  C2, as stated: during one \<^verbatim>\<open>Puzzle.check()\<close> every registered rule's \<^verbatim>\<open>check()\<close> is
  invoked, also after an earlier rule has failed. It does not hold: \<^verbatim>\<open>every\<close> stops at
  the first rule that fails. With an odd rule and an even rule on a cell holding 2, the
  console shows the odd rule only; the even rule is never called.
\<close>

theorem Puzzle_check_invokes_all_counterexample:
  "fst (Puzzle_check \<lparr>psize = 1, grid = [[0]], rules = [Odd [0], Even [0]]\<rparr> \<lparr>cell_value = (\<lambda>a. Undefined)(0 := Num 2), fresh = 1\<rparr>)
     = [(''odd'', False)]
   \<and> length (fst (Puzzle_check \<lparr>psize = 1, grid = [[0]], rules = [Odd [0], Even [0]]\<rparr> \<lparr>cell_value = (\<lambda>a. Undefined)(0 := Num 2), fresh = 1\<rparr>))
     < length (rules \<lparr>psize = 1, grid = [[0]], rules = [Odd [0], Even [0]]\<rparr>)"
  by (simp add: Puzzle_check_def RuleBase_check_def checkSum_def reduce_add_def cellValues_def
      to_double_exact)

text \<open>
  C2, amended: during one \<^verbatim>\<open>Puzzle.check()\<close> the rules are checked in registration order,
  up to and including the first rule whose \<^verbatim>\<open>check()\<close> returns false; the rules after it
  are not invoked. The console holds one line, name and result, for each rule invoked.
  So every registered rule is invoked exactly when no rule before the last one fails.
\<close>

theorem Puzzle_check_stops_at_first_failure:
  "fst (Puzzle_check p h) =
     map (\<lambda>r. (name r, check r h))
       (takeWhile (\<lambda>r. check r h) (rules p) @ take 1 (dropWhile (\<lambda>r. check r h) (rules p)))
   \<and> (length (fst (Puzzle_check p h)) = length (rules p)
        \<longleftrightarrow> (\<forall>r\<in>set (butlast (rules p)). check r h))"
proof -
  have c: "fst (Puzzle_check p h) =
     map (\<lambda>r. (name r, check r h))
       (takeWhile (\<lambda>r. check r h) (rules p) @ take 1 (dropWhile (\<lambda>r. check r h) (rules p)))"
    by (simp add: Puzzle_check_def Puzzle_check_every_console)
  have "length (fst (Puzzle_check p h)) =
      length (takeWhile (\<lambda>r. check r h) (rules p) @ take 1 (dropWhile (\<lambda>r. check r h) (rules p)))"
    unfolding c by (rule length_map)
  then have "(length (fst (Puzzle_check p h)) = length (rules p))
        = (\<forall>r\<in>set (butlast (rules p)). check r h)"
    by (simp only: prefix_to_first_failure_length)
  with c show ?thesis by blast
qed

text \<open>
  With an even, an odd and an even rule on a cell holding 2, the console shows the first
  two rules; the third is not called.
\<close>

theorem Puzzle_check_stops_at_first_failure_witness:
  "fst (Puzzle_check \<lparr>psize = 1, grid = [[0]], rules = [Even [0], Odd [0], Even [0]]\<rparr> \<lparr>cell_value = (\<lambda>a. Undefined)(0 := Num 2), fresh = 1\<rparr>)
     = [(''even'', True), (''odd'', False)]
   \<and> \<not> check (Odd [0]) \<lparr>cell_value = (\<lambda>a. Undefined)(0 := Num 2), fresh = 1\<rparr>"
  using Puzzle_check_stops_at_first_failure
    [of "\<lparr>psize = 1, grid = [[0]], rules = [Even [0], Odd [0], Even [0]]\<rparr>" "\<lparr>cell_value = (\<lambda>a. Undefined)(0 := Num 2), fresh = 1\<rparr>"]
  by (simp add: RuleBase_check_def checkSum_def reduce_add_def cellValues_def to_double_exact)

section \<open>Rule constructors\<close>

text \<open>
  C4. Constructing a region over a list of cells whose length differs from the puzzle's
  size fails in the constructor, with an assertion error: no rule object comes out of
  it, so there is nothing a check could ever be called on. The constructor reads no cell
  value (it takes no heap), so it fails whether or not the grid is populated. A rule
  object is returned exactly when the count equals the size.
\<close>

theorem RuleRegion_rejects_wrong_count:
  "(length cs \<noteq> n \<longrightarrow> (\<exists>msg. RuleRegion cs n = Inl (AssertionError msg)))
   \<and> (RuleRegion cs n = Inr r \<longleftrightarrow> length cs = n \<and> r = Region cs)"
  by (auto simp: RuleRegion_def)

text \<open>Eight or ten cells against a puzzle of size nine are rejected; nine are accepted.\<close>

theorem RuleRegion_rejects_wrong_count_witness:
  "length [0, 1, 2, 3, 4, 5, 6, 7 :: addr] \<noteq> 9
   \<and> (\<exists>msg. RuleRegion [0, 1, 2, 3, 4, 5, 6, 7] 9 = Inl (AssertionError msg))
   \<and> length [0, 1, 2, 3, 4, 5, 6, 7, 8, 9 :: addr] \<noteq> 9
   \<and> (\<exists>msg. RuleRegion [0, 1, 2, 3, 4, 5, 6, 7, 8, 9] 9 = Inl (AssertionError msg))
   \<and> RuleRegion [0, 1, 2, 3, 4, 5, 6, 7, 8] 9 = Inr (Region [0, 1, 2, 3, 4, 5, 6, 7, 8])"
  using RuleRegion_rejects_wrong_count [of "[0, 1, 2, 3, 4, 5, 6, 7]" 9 "Region []"]
        RuleRegion_rejects_wrong_count [of "[0, 1, 2, 3, 4, 5, 6, 7, 8, 9]" 9 "Region []"]
        RuleRegion_rejects_wrong_count
          [of "[0, 1, 2, 3, 4, 5, 6, 7, 8]" 9 "Region [0, 1, 2, 3, 4, 5, 6, 7, 8]"]
  by simp

text \<open>
  C10. A between line over exactly two cells, the two circles with nothing between them,
  is accepted by the constructor, and its check returns true whatever the two cells hold.
\<close>

theorem BetweenLine_two_cells_passes:
  "RuleBetweenLine [a, b] = Inr (BetweenLine [a, b]) \<and> check (BetweenLine [a, b]) h"
  by (simp add: RuleBetweenLine_def BetweenLine_check_def cellValues_def slice_def
      slice_bound_def every_def)

theorem BetweenLine_two_cells_passes_witness:
  "RuleBetweenLine [0, 1] = Inr (BetweenLine [0, 1]) \<and> check (BetweenLine [0, 1]) \<lparr>cell_value = (\<lambda>a. Undefined)(0 := Num 7, 1 := Num 7), fresh = 2\<rparr>"
  using BetweenLine_two_cells_passes [of 0 1 "\<lparr>cell_value = (\<lambda>a. Undefined)(0 := Num 7, 1 := Num 7), fresh = 2\<rparr>"]
  by simp

section \<open>The sandwich\<close>

text \<open>
  C3 says that a sandwich whose line lacks one of the two sentinel symbols fails its
  check. The code has no case for \<^verbatim>\<open>indexOf\<close> returning \<open>-1\<close>. On the nine-cell line
  \<open>[4, 7, 9, 2, 3, 5, 6, 8, 2]\<close> with sentinels 1 and 9 and target 11, the rule is
  constructed, the symbol 1 occurs nowhere, \<^verbatim>\<open>indexOf\<close> gives \<open>-1\<close> and \<open>2\<close>,
  \<^verbatim>\<open>slice(0, 2)\<close> takes the two cells before the 9, and the check returns true.
\<close>

theorem Sandwich_absent_sentinel_passes:
  "RuleSandwich [0, 1, 2, 3, 4, 5, 6, 7, 8] (Num 1) (Num 9) (Num 11) = Inr (Sandwich [0, 1, 2, 3, 4, 5, 6, 7, 8] (Num 1) (Num 9) (Num 11))
   \<and> cellValues [0, 1, 2, 3, 4, 5, 6, 7, 8]
        \<lparr>cell_value = (\<lambda>a. Undefined)(0 := Num 4, 1 := Num 7, 2 := Num 9, 3 := Num 2, 4 := Num 3, 5 := Num 5, 6 := Num 6, 7 := Num 8, 8 := Num 2), fresh = 9\<rparr>
       = [Num 4, Num 7, Num 9, Num 2, Num 3, Num 5, Num 6, Num 8, Num 2]
   \<and> Num 1 \<notin> set (cellValues [0, 1, 2, 3, 4, 5, 6, 7, 8]
        \<lparr>cell_value = (\<lambda>a. Undefined)(0 := Num 4, 1 := Num 7, 2 := Num 9, 3 := Num 2, 4 := Num 3, 5 := Num 5, 6 := Num 6, 7 := Num 8, 8 := Num 2), fresh = 9\<rparr>)
   \<and> indexOf [Num 4, Num 7, Num 9, Num 2, Num 3, Num 5, Num 6, Num 8, Num 2] (Num 1) = - 1
   \<and> indexOf [Num 4, Num 7, Num 9, Num 2, Num 3, Num 5, Num 6, Num 8, Num 2] (Num 9) = 2
   \<and> slice [Num 4, Num 7, Num 9, Num 2, Num 3, Num 5, Num 6, Num 8, Num 2] 0 2 = [Num 4, Num 7]
   \<and> check (Sandwich [0, 1, 2, 3, 4, 5, 6, 7, 8] (Num 1) (Num 9) (Num 11))
        \<lparr>cell_value = (\<lambda>a. Undefined)(0 := Num 4, 1 := Num 7, 2 := Num 9, 3 := Num 2, 4 := Num 3, 5 := Num 5, 6 := Num 6, 7 := Num 8, 8 := Num 2), fresh = 9\<rparr>
       = True"
  by (simp add: RuleSandwich_def Sandwich_check_def cellValues_def indexOf_def slice_def
      slice_bound_def reduce_add_def to_double_exact)

section \<open>The arrow\<close>

lemma Arrow_check_values:
  "check (Arrow cs) h =
     js_seq (reduce_add (cellValues cs h)) (js_mul (Num 2) (js_index (cellValues cs h) 0))"
  by (simp add: RuleBase_check_def checkSum_def)

text \<open>
  C5, as stated: for an arrow over \<open>[circle, p1, ..., pk]\<close> with integer values, the check
  as implemented (the total of all values is strictly equal to twice the circle's value)
  returns true if and only if the path values sum to the circle's value. The totals are
  sums of doubles, and past \<open>2^53\<close> they round, so it does not hold for all integers.
  On \<open>[2^53 - 1, 2^53 - 2, 1]\<close> the path sums to the circle, but the total rounds to
  \<open>2^54 - 4\<close>, twice the circle is \<open>2^54 - 2\<close>, and the check returns false. On
  \<open>[2^52, 2^52 + 1]\<close> the path differs from the circle, but the total \<open>2^53 + 1\<close> rounds
  to \<open>2^53\<close>, twice the circle, and the check returns true.
\<close>

theorem Arrow_check_doubling_counterexample:
  "cellValues [0, 1, 2] \<lparr>cell_value = (\<lambda>a. Undefined)(0 := Num 9007199254740991, 1 := Num 9007199254740990, 2 := Num 1), fresh = 3\<rparr> = map Num [9007199254740991, 9007199254740990, 1]
   \<and> sum_list [9007199254740990, 1] = (9007199254740991 :: int)
   \<and> reduce_add (cellValues [0, 1, 2] \<lparr>cell_value = (\<lambda>a. Undefined)(0 := Num 9007199254740991, 1 := Num 9007199254740990, 2 := Num 1), fresh = 3\<rparr>) = Num 18014398509481980
   \<and> js_mul (Num 2) (Num 9007199254740991) = Num 18014398509481982
   \<and> check (Arrow [0, 1, 2]) \<lparr>cell_value = (\<lambda>a. Undefined)(0 := Num 9007199254740991, 1 := Num 9007199254740990, 2 := Num 1), fresh = 3\<rparr> = False
   \<and> cellValues [0, 1] \<lparr>cell_value = (\<lambda>a. Undefined)(0 := Num 4503599627370496, 1 := Num 4503599627370497), fresh = 2\<rparr> = map Num [4503599627370496, 4503599627370497]
   \<and> sum_list [4503599627370497] \<noteq> (4503599627370496 :: int)
   \<and> check (Arrow [0, 1]) \<lparr>cell_value = (\<lambda>a. Undefined)(0 := Num 4503599627370496, 1 := Num 4503599627370497), fresh = 2\<rparr> = True"
  by code_simp

text \<open>
  C5, amended: for an arrow over \<open>[circle, p1, ..., pk]\<close> whose cells hold integers with
  absolute values summing to less than \<open>2^53\<close> (so at most the largest safe integer), the
  check as implemented returns true if and only if the path values sum to the circle's
  value; there it also agrees with the element-wise reading of the rule.
\<close>

theorem Arrow_check_doubling_equiv_safe:
  assumes vs: "cellValues (circle # path) h = map Num (n # ns)"
    and bound: "sum_list (map abs (n # ns)) < 2 ^ 53"
  shows "check (Arrow (circle # path)) h = (sum_list ns = n)
         \<and> check (Arrow (circle # path)) h = arrow_path_sum_equals_circle (circle # path) h"
proof -
  have nonneg: "0 \<le> sum_list (map abs ns)" by (rule sum_list_abs_nonneg)
  from bound nonneg have n: "\<bar>n\<bar> < 2 ^ 53" and ns: "sum_list (map abs ns) < 2 ^ 53"
    by simp_all
  have total: "reduce_add (map Num (n # ns)) = Num (sum_list (n # ns))"
    using bound by (rule reduce_add_exact)
  have twice: "js_mul (Num 2) (Num n) = Num (2 * n)"
    using n by (simp add: to_double_twice)
  have path_total: "reduce_add (map Num ns) = Num (sum_list ns)"
    using ns by (rule reduce_add_exact)
  have "check (Arrow (circle # path)) h =
          js_seq (reduce_add (map Num (n # ns))) (js_mul (Num 2) (Num n))"
    unfolding Arrow_check_values vs by (simp add: js_index_def)
  also have "\<dots> = (sum_list ns = n)"
    unfolding total twice by auto
  finally have code: "check (Arrow (circle # path)) h = (sum_list ns = n)" .
  have "arrow_path_sum_equals_circle (circle # path) h = js_seq (reduce_add (map Num ns)) (Num n)"
    by (simp add: arrow_path_sum_equals_circle_def vs)
  also have "\<dots> = (sum_list ns = n)"
    unfolding path_total by simp
  finally have "arrow_path_sum_equals_circle (circle # path) h = (sum_list ns = n)" .
  with code show ?thesis by simp
qed

text \<open>The arrow of the repository's sample puzzle: circle 9, path 6, 2, 1.\<close>

theorem Arrow_check_doubling_equiv_safe_witness:
  "cellValues [0, 1, 2, 3] \<lparr>cell_value = (\<lambda>a. Undefined)(0 := Num 9, 1 := Num 6, 2 := Num 2, 3 := Num 1), fresh = 4\<rparr> = map Num [9, 6, 2, 1]
   \<and> sum_list (map abs [9, 6, 2, 1 :: int]) < 2 ^ 53
   \<and> check (Arrow [0, 1, 2, 3]) \<lparr>cell_value = (\<lambda>a. Undefined)(0 := Num 9, 1 := Num 6, 2 := Num 2, 3 := Num 1), fresh = 4\<rparr>"
proof -
  let ?h = "\<lparr>cell_value = (\<lambda>a. Undefined)(0 := Num 9, 1 := Num 6, 2 := Num 2, 3 := Num 1), fresh = 4\<rparr>"
  have vs: "cellValues [0, 1, 2, 3] ?h = map Num [9, 6, 2, 1]"
    by (simp add: cellValues_def)
  have bound: "sum_list (map abs [9, 6, 2, 1 :: int]) < 2 ^ 53"
    by simp
  have "check (Arrow [0, 1, 2, 3]) ?h = (sum_list [6, 2, 1] = (9::int))"
    using Arrow_check_doubling_equiv_safe [OF vs bound] by blast
  then have "check (Arrow [0, 1, 2, 3]) ?h" by simp
  with vs bound show ?thesis by blast
qed

section \<open>The thermometer\<close>

lemma Thermometer_check_values:
  "check (Thermometer cs) h =
     (\<forall>i. Suc i < length cs \<longrightarrow> js_lt (cell_value h (cs ! i)) (cell_value h (cs ! Suc i)))"
proof -
  have "check (Thermometer cs) h =
          (\<forall>i<length cs. i = 0 \<or> js_lt (cell_value h (cs ! (i - 1))) (cell_value h (cs ! i)))"
    by (auto simp: RuleBase_check_def checkRelation_def every_iff cellValues_def js_index_def
        nat_diff_distrib int_ops)
  also have "\<dots> =
      (\<forall>i. Suc i < length cs \<longrightarrow> js_lt (cell_value h (cs ! i)) (cell_value h (cs ! Suc i)))"
  proof
    assume a: "\<forall>i<length cs. i = 0 \<or> js_lt (cell_value h (cs ! (i - 1))) (cell_value h (cs ! i))"
    show "\<forall>i. Suc i < length cs \<longrightarrow> js_lt (cell_value h (cs ! i)) (cell_value h (cs ! Suc i))"
    proof (intro allI impI)
      fix i assume "Suc i < length cs"
      with a [rule_format, of "Suc i"]
      show "js_lt (cell_value h (cs ! i)) (cell_value h (cs ! Suc i))"
        by simp
    qed
  next
    assume a: "\<forall>i. Suc i < length cs \<longrightarrow>
                 js_lt (cell_value h (cs ! i)) (cell_value h (cs ! Suc i))"
    show "\<forall>i<length cs. i = 0 \<or> js_lt (cell_value h (cs ! (i - 1))) (cell_value h (cs ! i))"
    proof (intro allI impI)
      fix i assume "i < length cs"
      then show "i = 0 \<or> js_lt (cell_value h (cs ! (i - 1))) (cell_value h (cs ! i))"
        using a [rule_format, of "i - 1"] by (cases i) auto
    qed
  qed
  finally show ?thesis .
qed

lemma Thermometer_check_ints:
  assumes vs: "cellValues cs h = map Num ns"
  shows "check (Thermometer cs) h = sorted_wrt (<) ns"
proof -
  from vs have len: "length cs = length ns"
    by (metis cellValues_def length_map)
  have nth: "cell_value h (cs ! i) = Num (ns ! i)" if "i < length ns" for i
  proof -
    from that len have "cellValues cs h ! i = cell_value h (cs ! i)"
      by (simp add: cellValues_def)
    with vs that show ?thesis by simp
  qed
  have "check (Thermometer cs) h = (\<forall>i. Suc i < length ns \<longrightarrow> ns ! i < ns ! Suc i)"
    unfolding Thermometer_check_values len
    by (auto simp: nth)
  also have "\<dots> = successively (<) ns"
    by (simp add: successively_conv_nth)
  also have "\<dots> = sorted_wrt (<) ns"
    by (rule successively_conv_sorted_wrt) (rule transp_on_less)
  finally show ?thesis .
qed

text \<open>
  C6. A thermometer's check returns true if and only if each cell's value is less than
  the next one's, in reference order (JavaScript's \<^verbatim>\<open><\<close>, which an unset cell never
  satisfies); on integer values \<open>ns\<close> that is: \<open>ns\<close> is strictly increasing.
\<close>

theorem Thermometer_check_strictly_increasing:
  "(check (Thermometer cs) h \<longleftrightarrow>
      (\<forall>i. Suc i < length cs \<longrightarrow> js_lt (cell_value h (cs ! i)) (cell_value h (cs ! Suc i))))
   \<and> (cellValues cs h = map Num ns \<longrightarrow> (check (Thermometer cs) h \<longleftrightarrow> sorted_wrt (<) ns))"
  using Thermometer_check_values [of cs h] Thermometer_check_ints [of cs h ns] by blast

text \<open>The path \<open>[1, 5, 6, 9]\<close> passes and the path \<open>[1, 5, 5, 9]\<close> fails.\<close>

theorem Thermometer_check_strictly_increasing_witness:
  "cellValues [0, 1, 2, 3] \<lparr>cell_value = (\<lambda>a. Undefined)(0 := Num 1, 1 := Num 5, 2 := Num 6, 3 := Num 9), fresh = 4\<rparr> = map Num [1, 5, 6, 9]
   \<and> check (Thermometer [0, 1, 2, 3]) \<lparr>cell_value = (\<lambda>a. Undefined)(0 := Num 1, 1 := Num 5, 2 := Num 6, 3 := Num 9), fresh = 4\<rparr>
   \<and> cellValues [0, 1, 2, 3] \<lparr>cell_value = (\<lambda>a. Undefined)(0 := Num 1, 1 := Num 5, 2 := Num 5, 3 := Num 9), fresh = 4\<rparr> = map Num [1, 5, 5, 9]
   \<and> \<not> check (Thermometer [0, 1, 2, 3]) \<lparr>cell_value = (\<lambda>a. Undefined)(0 := Num 1, 1 := Num 5, 2 := Num 5, 3 := Num 9), fresh = 4\<rparr>"
proof -
  let ?h = "\<lparr>cell_value = (\<lambda>a. Undefined)(0 := Num 1, 1 := Num 5, 2 := Num 6, 3 := Num 9), fresh = 4\<rparr>"
  let ?h' = "\<lparr>cell_value = (\<lambda>a. Undefined)(0 := Num 1, 1 := Num 5, 2 := Num 5, 3 := Num 9), fresh = 4\<rparr>"
  have vs: "cellValues [0, 1, 2, 3] ?h = map Num [1, 5, 6, 9]"
    and vs': "cellValues [0, 1, 2, 3] ?h' = map Num [1, 5, 5, 9]"
    by (simp_all add: cellValues_def)
  have "check (Thermometer [0, 1, 2, 3]) ?h = sorted_wrt (<) [1, 5, 6, 9 :: int]"
    using Thermometer_check_strictly_increasing [of "[0, 1, 2, 3]" ?h "[1, 5, 6, 9]"] vs
    by blast
  then have pass: "check (Thermometer [0, 1, 2, 3]) ?h" by simp
  have "check (Thermometer [0, 1, 2, 3]) ?h' = sorted_wrt (<) [1, 5, 5, 9 :: int]"
    using Thermometer_check_strictly_increasing [of "[0, 1, 2, 3]" ?h' "[1, 5, 5, 9]"] vs'
    by blast
  then have fail: "\<not> check (Thermometer [0, 1, 2, 3]) ?h'" by simp
  from vs vs' pass fail show ?thesis by blast
qed

section \<open>The quadruple\<close>

text \<open>
  C7. A quadruple's check returns true if and only if every declared digit is the value
  of at least one of its cells. How often a digit is declared makes no difference: the
  check of a digit list equals the check of the list without its repetitions.
\<close>

theorem Quadruple_check_membership:
  "(check (Quadruple cs qs) h \<longleftrightarrow> (\<forall>q\<in>set qs. \<exists>c\<in>set cs. cell_value h c = q))
   \<and> check (Quadruple cs qs) h = check (Quadruple cs (remdups qs)) h"
  by (auto simp: Quadruple_check_def every_value_iff js_includes_def cellValues_def)

text \<open>
  On cells holding \<open>[6, 7, 9, 1]\<close>, the digits \<open>[9, 6]\<close> pass, \<open>[9, 5]\<close> fail, and
  \<open>[9, 9]\<close> pass although only one cell holds a 9.
\<close>

theorem Quadruple_check_membership_witness:
  "check (Quadruple [0, 1, 2, 3] [Num 9, Num 6]) \<lparr>cell_value = (\<lambda>a. Undefined)(0 := Num 6, 1 := Num 7, 2 := Num 9, 3 := Num 1), fresh = 4\<rparr>
   \<and> \<not> check (Quadruple [0, 1, 2, 3] [Num 9, Num 5]) \<lparr>cell_value = (\<lambda>a. Undefined)(0 := Num 6, 1 := Num 7, 2 := Num 9, 3 := Num 1), fresh = 4\<rparr>
   \<and> check (Quadruple [0, 1, 2, 3] [Num 9, Num 9]) \<lparr>cell_value = (\<lambda>a. Undefined)(0 := Num 6, 1 := Num 7, 2 := Num 9, 3 := Num 1), fresh = 4\<rparr>"
  using Quadruple_check_membership [of "[0, 1, 2, 3]" "[Num 9, Num 6]" "\<lparr>cell_value = (\<lambda>a. Undefined)(0 := Num 6, 1 := Num 7, 2 := Num 9, 3 := Num 1), fresh = 4\<rparr>"]
        Quadruple_check_membership [of "[0, 1, 2, 3]" "[Num 9, Num 5]" "\<lparr>cell_value = (\<lambda>a. Undefined)(0 := Num 6, 1 := Num 7, 2 := Num 9, 3 := Num 1), fresh = 4\<rparr>"]
        Quadruple_check_membership [of "[0, 1, 2, 3]" "[Num 9, Num 9]" "\<lparr>cell_value = (\<lambda>a. Undefined)(0 := Num 6, 1 := Num 7, 2 := Num 9, 3 := Num 1), fresh = 4\<rparr>"]
  by simp

section \<open>A check reads the referenced cells and nothing else\<close>

lemma cellValues_cong:
  "(\<forall>a\<in>set cs. cell_value h a = cell_value h' a) \<Longrightarrow> cellValues cs h = cellValues cs h'"
  by (simp add: cellValues_def)

lemma cellValues_groups_cong:
  "(\<forall>a\<in>set (concat gs). cell_value h a = cell_value h' a) \<Longrightarrow>
     cellValues_groups gs h = cellValues_groups gs h'"
  by (simp add: cellValues_groups_def)

text \<open>
  C8. For every rule variant, \<^verbatim>\<open>check()\<close> is a function of the current values of the
  cells the rule refers to: it returns a boolean and changes no cell, and on two heaps
  that agree on the referenced cells it returns the same result, whatever else differs.
  Called twice with no cell written in between, it therefore returns the same result;
  the values are read from the heap at each call.
\<close>

theorem check_depends_on_referenced_cells:
  assumes "\<forall>a\<in>referenced r. cell_value h a = cell_value h' a"
  shows "check r h = check r h'"
proof -
  from assms have flat: "cellValues (cells r) h = cellValues (cells r) h'"
    by (intro cellValues_cong) (simp add: referenced_def)
  from assms have grouped: "cellValues_groups (groups r) h = cellValues_groups (groups r) h'"
    by (intro cellValues_groups_cong) (simp add: referenced_def)
  from flat grouped show ?thesis
    by (cases r)
      (simp_all add: RuleBase_check_def checkUniques_def checkSum_def checkRelation_def
        Palindrome_check_def Sandwich_check_def Clone_check_def BetweenLine_check_def
        Minimum_check_def Maximum_check_def Quadruple_check_def)
qed

text \<open>
  A killer cage over cells 0 and 1 gives the same result on two heaps that differ in
  cell 2 and in the allocation pointer.
\<close>

theorem check_depends_on_referenced_cells_witness:
  "referenced (KillerCage [0, 1] (Num 7)) = {0, 1}
   \<and> cell_value \<lparr>cell_value = (\<lambda>a. Undefined)(0 := Num 3, 1 := Num 4, 2 := Num 1), fresh = 3\<rparr> 0 = cell_value \<lparr>cell_value = (\<lambda>a. Undefined)(0 := Num 3, 1 := Num 4, 2 := Num 8, 3 := Num 2), fresh = 4\<rparr> 0
   \<and> cell_value \<lparr>cell_value = (\<lambda>a. Undefined)(0 := Num 3, 1 := Num 4, 2 := Num 1), fresh = 3\<rparr> 1 = cell_value \<lparr>cell_value = (\<lambda>a. Undefined)(0 := Num 3, 1 := Num 4, 2 := Num 8, 3 := Num 2), fresh = 4\<rparr> 1
   \<and> cell_value \<lparr>cell_value = (\<lambda>a. Undefined)(0 := Num 3, 1 := Num 4, 2 := Num 1), fresh = 3\<rparr> 2 \<noteq> cell_value \<lparr>cell_value = (\<lambda>a. Undefined)(0 := Num 3, 1 := Num 4, 2 := Num 8, 3 := Num 2), fresh = 4\<rparr> 2
   \<and> fresh \<lparr>cell_value = (\<lambda>a. Undefined)(0 := Num 3, 1 := Num 4, 2 := Num 1), fresh = 3\<rparr> \<noteq> fresh \<lparr>cell_value = (\<lambda>a. Undefined)(0 := Num 3, 1 := Num 4, 2 := Num 8, 3 := Num 2), fresh = 4\<rparr>
   \<and> check (KillerCage [0, 1] (Num 7)) \<lparr>cell_value = (\<lambda>a. Undefined)(0 := Num 3, 1 := Num 4, 2 := Num 1), fresh = 3\<rparr> = check (KillerCage [0, 1] (Num 7)) \<lparr>cell_value = (\<lambda>a. Undefined)(0 := Num 3, 1 := Num 4, 2 := Num 8, 3 := Num 2), fresh = 4\<rparr>"
proof -
  have agree: "\<forall>a\<in>referenced (KillerCage [0, 1] (Num 7)). cell_value \<lparr>cell_value = (\<lambda>a. Undefined)(0 := Num 3, 1 := Num 4, 2 := Num 1), fresh = 3\<rparr> a = cell_value \<lparr>cell_value = (\<lambda>a. Undefined)(0 := Num 3, 1 := Num 4, 2 := Num 8, 3 := Num 2), fresh = 4\<rparr> a"
    by (simp add: referenced_def)
  have "check (KillerCage [0, 1] (Num 7)) \<lparr>cell_value = (\<lambda>a. Undefined)(0 := Num 3, 1 := Num 4, 2 := Num 1), fresh = 3\<rparr> = check (KillerCage [0, 1] (Num 7)) \<lparr>cell_value = (\<lambda>a. Undefined)(0 := Num 3, 1 := Num 4, 2 := Num 8, 3 := Num 2), fresh = 4\<rparr>"
    using agree by (rule check_depends_on_referenced_cells)
  then show ?thesis
    by (simp add: referenced_def insert_commute)
qed

section \<open>The grid and \<^verbatim>\<open>setValue\<close>\<close>

lemma new_cells_closed:
  "fst (new_cells n h) = [fresh h..<fresh h + n] \<and> fresh (snd (new_cells n h)) = fresh h + n"
proof (induction n arbitrary: h)
  case 0
  show ?case by simp
next
  case (Suc n)
  from Suc [of "snd (new_Cell h)"] show ?case
    by (simp add: new_Cell_def split_beta Let_def upt_conv_Cons)
qed

lemma new_rows_closed:
  "fst (new_rows m n h) = map (\<lambda>y. [fresh h + y * n..<fresh h + y * n + n]) [0..<m]
   \<and> fresh (snd (new_rows m n h)) = fresh h + m * n"
proof (induction m arbitrary: h)
  case 0
  show ?case by simp
next
  case (Suc m)
  let ?h1 = "snd (new_cells n h)"
  have row: "fst (new_cells n h) = [fresh h..<fresh h + n]" and f1: "fresh ?h1 = fresh h + n"
    using new_cells_closed [of n h] by simp_all
  have "fst (new_rows (Suc m) n h) = fst (new_cells n h) # fst (new_rows m n ?h1)"
    by (simp add: split_beta)
  also have "\<dots> = [fresh h..<fresh h + n] #
      map (\<lambda>y. [fresh h + Suc y * n..<fresh h + Suc y * n + n]) [0..<m]"
    using Suc [of ?h1] by (simp add: row f1 add.assoc)
  also have "\<dots> = map (\<lambda>y. [fresh h + y * n..<fresh h + y * n + n]) [0..<Suc m]"
    by (simp add: map_upt_Suc del: upt_Suc)
  finally have rows: "fst (new_rows (Suc m) n h) =
      map (\<lambda>y. [fresh h + y * n..<fresh h + y * n + n]) [0..<Suc m]" .
  have "fresh (snd (new_rows (Suc m) n h)) = fresh (snd (new_rows m n ?h1))"
    by (simp add: split_beta)
  also have "\<dots> = fresh h + Suc m * n"
    using Suc [of ?h1] by (simp add: f1)
  finally show ?case using rows by blast
qed

text \<open>
  The constructor lays the grid out row by row on fresh cells, so the cell at \<open>(x, y)\<close>
  is the \<open>(y * size + x)\<close>-th cell allocated.
\<close>

lemma new_Puzzle_grid:
  "grid (fst (new_Puzzle n h)) = map (\<lambda>y. [fresh h + y * n..<fresh h + y * n + n]) [0..<n]"
  and new_Puzzle_psize: "psize (fst (new_Puzzle n h)) = n"
  by (simp_all add: new_Puzzle_def split_beta new_rows_closed)

lemma setValue_Inr:
  "setValue p x y v h = Inr (p', h') \<longleftrightarrow>
     (\<exists>c. cell_ref p x y = Some c \<and> p' = p \<and> h' = h\<lparr>cell_value := (cell_value h)(c := v)\<rparr>)"
  by (auto simp: setValue_def cell_ref_def split: option.splits)

text \<open>No operation of the interface assigns the grid: it stays the one constructed.\<close>

lemma reachable_grid:
  "reachable p \<Longrightarrow>
     \<exists>b. grid p = map (\<lambda>y. [b + y * psize p..<b + y * psize p + psize p]) [0..<psize p]"
proof (induction rule: reachable.induct)
  case (constructed n h0 p h)
  then have "p = fst (new_Puzzle n h0)" by simp
  then show ?case
    by (intro exI [of _ "fresh h0"]) (simp add: new_Puzzle_grid new_Puzzle_psize)
next
  case (rules_added p rs)
  then show ?case by (simp add: addRules_def)
next
  case (value_set p x y v h p' h')
  from value_set.hyps(2) have "p' = p" by (auto simp: setValue_Inr)
  with value_set.IH show ?case by simp
qed

lemma cell_ref_grid:
  "grid p = map (\<lambda>y. [b + y * n..<b + y * n + n]) [0..<n] \<Longrightarrow>
   cell_ref p x y =
     (if 0 \<le> y \<and> y < int n \<and> 0 \<le> x \<and> x < int n then Some (b + nat y * n + nat x) else None)"
  by (auto simp: cell_ref_def at_def)

lemma grid_index_inj:
  assumes "x1 < n" "x2 < n" "b + y1 * n + x1 = b + y2 * n + (x2::nat)"
  shows "x1 = x2 \<and> y1 = y2"
proof -
  from assms(3) have e: "y1 * n + x1 = y2 * n + x2" by simp
  from e have "(y1 * n + x1) div n = (y2 * n + x2) div n" by simp
  with assms(1,2) have y: "y1 = y2" by simp
  with e show ?thesis by simp
qed

text \<open>Two coordinates of a puzzle's grid never hold the same cell.\<close>

lemma cell_ref_distinct:
  assumes "reachable p" "cell_ref p x y = Some c" "cell_ref p x' y' = Some c"
  shows "x' = x \<and> y' = y"
proof -
  let ?n = "psize p"
  from assms(1) obtain b where g: "grid p = map (\<lambda>y. [b + y * ?n..<b + y * ?n + ?n]) [0..<?n]"
    using reachable_grid by blast
  from assms(2) have r: "0 \<le> y" "y < int ?n" "0 \<le> x" "x < int ?n" "c = b + nat y * ?n + nat x"
    by (auto simp: cell_ref_grid [OF g] split: if_splits)
  from assms(3) have r': "0 \<le> y'" "y' < int ?n" "0 \<le> x'" "x' < int ?n"
      "c = b + nat y' * ?n + nat x'"
    by (auto simp: cell_ref_grid [OF g] split: if_splits)
  from r r' have "nat x < ?n" "nat x' < ?n" "b + nat y * ?n + nat x = b + nat y' * ?n + nat x'"
    by auto
  then have "nat x = nat x' \<and> nat y = nat y'" by (rule grid_index_inj)
  with r r' show ?thesis by auto
qed

text \<open>
  C9. On a puzzle obtained through the interface, a \<^verbatim>\<open>setValue(x, y, value)\<close> that
  returns writes the value into the cell \<open>c\<close> at \<open>(x, y)\<close> and changes nothing else: the
  puzzle, and with it the grid's cell objects, is the same; the heap differs in the value
  of \<open>c\<close> only; the cell at any other coordinate is another cell and keeps its value; and
  what any rule reads through its references is the old values with \<open>c\<close>'s replaced, so
  all rules referring to \<open>c\<close> see the one update.
\<close>

theorem setValue_frame:
  assumes "reachable p" and "setValue p x y v h = Inr (p', h')"
  shows "\<exists>c. cell_ref p x y = Some c
           \<and> p' = p \<and> grid p' = grid p
           \<and> h' = h\<lparr>cell_value := (cell_value h)(c := v)\<rparr>
           \<and> cell_value h' c = v
           \<and> (\<forall>a. a \<noteq> c \<longrightarrow> cell_value h' a = cell_value h a)
           \<and> (\<forall>x' y' c'. cell_ref p' x' y' = Some c' \<and> (x', y') \<noteq> (x, y) \<longrightarrow>
                 c' \<noteq> c \<and> cell_value h' c' = cell_value h c')
           \<and> (\<forall>r. cellValues (cells r) h'
                     = map (\<lambda>a. if a = c then v else cell_value h a) (cells r)
                   \<and> cellValues_groups (groups r) h'
                     = map (map (\<lambda>a. if a = c then v else cell_value h a)) (groups r))"
proof -
  from assms(2) obtain c where c: "cell_ref p x y = Some c" "p' = p"
      "h' = h\<lparr>cell_value := (cell_value h)(c := v)\<rparr>"
    by (auto simp: setValue_Inr)
  have other: "c' \<noteq> c" if "cell_ref p x' y' = Some c'" "(x', y') \<noteq> (x, y)" for x' y' c'
    using cell_ref_distinct [OF assms(1) c(1), of x' y'] that by auto
  from c other show ?thesis
    by (auto simp: cellValues_def cellValues_groups_def)
qed

text \<open>
  A puzzle of size 2 on an empty heap has the grid \<open>[[0, 1], [2, 3]]\<close>. Setting
  \<open>(x, y) = (1, 0)\<close> to 5 writes cell 1 only, and two rules sharing that cell both read
  the 5.
\<close>

theorem setValue_frame_witness:
  "reachable (fst (new_Puzzle 2 \<lparr>cell_value = (\<lambda>a. Undefined), fresh = 0\<rparr>))
   \<and> grid (fst (new_Puzzle 2 \<lparr>cell_value = (\<lambda>a. Undefined), fresh = 0\<rparr>)) = [[0, 1], [2, 3]]
   \<and> (\<exists>h'. setValue (fst (new_Puzzle 2 \<lparr>cell_value = (\<lambda>a. Undefined), fresh = 0\<rparr>)) 1 0 (Num 5)
              (snd (new_Puzzle 2 \<lparr>cell_value = (\<lambda>a. Undefined), fresh = 0\<rparr>))
            = Inr (fst (new_Puzzle 2 \<lparr>cell_value = (\<lambda>a. Undefined), fresh = 0\<rparr>), h')
          \<and> cellValues [0, 1, 2, 3] h' = [Undefined, Num 5, Undefined, Undefined]
          \<and> cellValues (cells (Thermometer [0, 1])) h' = [Undefined, Num 5]
          \<and> cellValues (cells (Region [1, 3])) h' = [Num 5, Undefined])"
proof -
  let ?H0 = "\<lparr>cell_value = (\<lambda>a. Undefined), fresh = 0\<rparr>"
  let ?p = "fst (new_Puzzle 2 ?H0)"
  let ?h = "snd (new_Puzzle 2 ?H0)"
  let ?h' = "?h\<lparr>cell_value := (cell_value ?h)(1 := Num 5)\<rparr>"
  have r: "reachable ?p"
    by (rule reachable.constructed [of 2 ?H0 _ ?h]) simp
  have g: "grid ?p = [[0, 1], [2, 3]]"
    by (simp add: new_Puzzle_grid upt_conv_Cons)
  have unset: "cellValues [0, 1, 2, 3] ?h = [Undefined, Undefined, Undefined, Undefined]"
    by (simp add: cellValues_def new_Puzzle_def new_Cell_def eval_nat_numeral)
  have sv: "setValue ?p 1 0 (Num 5) ?h = Inr (?p, ?h')"
    by (simp add: setValue_def at_def g)
  from setValue_frame [OF r sv] obtain c where c: "cell_ref ?p 1 0 = Some c"
    and vals: "\<forall>r. cellValues (cells r) ?h' = map (\<lambda>a. if a = c then Num 5 else cell_value ?h a) (cells r)"
    by blast
  from c have c1: "c = 1"
    by (simp add: cell_ref_def at_def g)
  from unset have old: "cell_value ?h 0 = Undefined" "cell_value ?h 1 = Undefined"
      "cell_value ?h 2 = Undefined" "cell_value ?h 3 = Undefined"
    by (simp_all add: cellValues_def)
  have "cellValues [0, 1, 2, 3] ?h' = [Undefined, Num 5, Undefined, Undefined]"
    using vals [rule_format, of "Region [0, 1, 2, 3]"] by (simp add: c1 old)
  moreover have "cellValues (cells (Thermometer [0, 1])) ?h' = [Undefined, Num 5]"
    using vals [rule_format, of "Thermometer [0, 1]"] by (simp add: c1 old)
  moreover have "cellValues (cells (Region [1, 3])) ?h' = [Num 5, Undefined]"
    using vals [rule_format, of "Region [1, 3]"] by (simp add: c1 old)
  ultimately show ?thesis using r g sv by blast
qed

end
